theory Spec2Isabelle
  imports Main
begin

section \<open>Values that cross the handlers\<close>

text \<open>
  The handlers of \<^verbatim>\<open>handler.go\<close> are glue between three things that live outside the
  file: the request and response writer of \<^verbatim>\<open>net/http\<close>, the encoder of
  \<^verbatim>\<open>encoding/json\<close>, and the storage client \<^verbatim>\<open>gd\<close>. Each is modelled as far as
  the handlers use it. Strings are byte strings. A Go \<^verbatim>\<open>error\<close> is its message; a nil error
  is \<open>None\<close>.
\<close>

datatype go_error = errors_New string

primrec Error :: "go_error \<Rightarrow> string" where
  "Error (errors_New msg) = msg"

text \<open>
  \<^verbatim>\<open>time.Time\<close> by its calendar reading: what \<^verbatim>\<open>Date\<close>, \<^verbatim>\<open>Clock\<close>,
  \<^verbatim>\<open>Nanosecond\<close> and \<^verbatim>\<open>Zone\<close> return. The zero value, which Go gives to a variable
  declared with \<^verbatim>\<open>var expiry time.Time\<close>, is midnight of January 1 of year 1, UTC.
\<close>

record Time =
  Year :: int
  Month :: nat
  Day :: nat
  Hour :: nat
  Minute :: nat
  Second :: nat
  Nanosecond :: nat
  ZoneOffset :: int

definition zero_Time :: Time where
  "zero_Time = \<lparr>Year = 1, Month = 1, Day = 1, Hour = 0, Minute = 0, Second = 0,
     Nanosecond = 0, ZoneOffset = 0\<rparr>"

text \<open>
  A JSON document is kept as a tree: the byte layout that \<^verbatim>\<open>encoding/json\<close> gives it
  (escaping inside strings, the RFC 3339 text of a time) is not modelled. \<open>JString s\<close> is
  the JSON string whose text is \<open>s\<close>, in UTF-8. \<open>JTime t\<close> is the JSON string that
  holds \<open>t\<close> in RFC 3339 layout.
\<close>

datatype json =
    JNull
  | JString string
  | JTime Time
  | JArray "json list"
  | JObject "(string \<times> json) list"

text \<open>
  A \<^verbatim>\<open>[]byte\<close> is a list of chunks: literal bytes, or the encoding of one JSON document.
  The nil slice is the empty list.
\<close>

datatype chunk = Plain string | Marshalled json

type_synonym bytes = "chunk list"

text \<open>The bytes as text, when they are literal bytes only.\<close>

fun plain_text :: "bytes \<Rightarrow> string option" where
  "plain_text [] = Some []"
| "plain_text (Plain s # bs) = map_option ((@) s) (plain_text bs)"
| "plain_text (Marshalled j # bs) = None"

definition empty_bytes :: "bytes \<Rightarrow> bool" where
  "empty_bytes bs = (plain_text bs = Some [])"

text \<open>The bytes as a JSON document, when they are the encoding of exactly one.\<close>

definition body_json :: "bytes \<Rightarrow> json option" where
  "body_json bs = (case bs of [Marshalled j] \<Rightarrow> Some j | _ \<Rightarrow> None)"

text \<open>The value of a field of a JSON object; \<open>None\<close> when the object has no such field.\<close>

fun json_field :: "json \<Rightarrow> string \<Rightarrow> json option" where
  "json_field (JObject fs) name = map_of fs name"
| "json_field j name = None"

section \<open>encoding/json, for the four response structs\<close>

text \<open>
  The Go values that occur as fields of the response structs: a string, a slice of strings
  (\<open>None\<close> is the nil slice) and a \<^verbatim>\<open>time.Time\<close>, which is a struct.
\<close>

datatype go_value =
    String string
  | StringSlice "string list option"
  | TimeValue Time

text \<open>A struct field as the encoder sees it: the name and option of its \<^verbatim>\<open>json\<close> tag, and its value.\<close>

record field =
  tag_name :: string
  tag_omitempty :: bool
  field_value :: go_value

text \<open>
  \<^verbatim>\<open>isEmptyValue\<close> of \<^verbatim>\<open>encoding/json\<close>: a string or slice is empty when its length
  is 0; a value of struct kind falls to the default case and is never empty.
\<close>

fun isEmptyValue :: "go_value \<Rightarrow> bool" where
  "isEmptyValue (String s) = (length s = 0)"
| "isEmptyValue (StringSlice None) = True"
| "isEmptyValue (StringSlice (Some xs)) = (length xs = 0)"
| "isEmptyValue (TimeValue t) = False"

text \<open>
  A Go string is any sequence of bytes; a JSON string is text. The encoder walks the string
  with \<^verbatim>\<open>utf8.DecodeRuneInString\<close> and writes U+FFFD in place of every byte at which
  no well-formed UTF-8 sequence starts; every other byte goes into the text as it is.
\<close>

definition RuneError_utf8 :: string where
  "RuneError_utf8 = [CHR 0xEF, CHR 0xBF, CHR 0xBD]"

definition in_range :: "nat \<Rightarrow> nat \<Rightarrow> char \<Rightarrow> bool" where
  "in_range lo hi c = (lo \<le> of_char c \<and> of_char c \<le> hi)"

text \<open>
  The bytes that follow the first byte of a sequence of \<open>sz\<close> bytes: the second must lie in
  the accept range of the first, the others must be continuation bytes. The result is the
  size of the sequence, or \<open>None\<close> where the decoder returns \<^verbatim>\<open>(RuneError, 1)\<close>.
\<close>

definition rune_tail :: "nat \<Rightarrow> nat \<Rightarrow> nat \<Rightarrow> string \<Rightarrow> nat option" where
  "rune_tail sz lo hi rest =
     (if length rest + 1 < sz then None
      else (case rest of
              [] \<Rightarrow> None
            | s1 # r1 \<Rightarrow>
                if \<not> in_range lo hi s1 then None
                else if sz \<le> 2 then Some 2
                else (case r1 of
                        [] \<Rightarrow> None
                      | s2 # r2 \<Rightarrow>
                          if \<not> in_range 0x80 0xBF s2 then None
                          else if sz \<le> 3 then Some 3
                          else (case r2 of
                                  [] \<Rightarrow> None
                                | s3 # r3 \<Rightarrow>
                                    if \<not> in_range 0x80 0xBF s3 then None else Some 4))))"

text \<open>
  The size that \<^verbatim>\<open>utf8.DecodeRuneInString\<close> returns for the head of a string, by the
  first byte: ASCII; a stray continuation byte or an overlong lead (invalid); the leads of
  two, three and four bytes with their accept ranges; a lead beyond U+10FFFF (invalid).
\<close>

definition DecodeRune_size :: "string \<Rightarrow> nat option" where
  "DecodeRune_size s =
     (case s of
        [] \<Rightarrow> None
      | s0 # rest \<Rightarrow>
          (let b = (of_char s0 :: nat) in
           if b < 0x80 then Some 1
           else if b < 0xC2 then None
           else if b < 0xE0 then rune_tail 2 0x80 0xBF rest
           else if b = 0xE0 then rune_tail 3 0xA0 0xBF rest
           else if b = 0xED then rune_tail 3 0x80 0x9F rest
           else if b < 0xF0 then rune_tail 3 0x80 0xBF rest
           else if b = 0xF0 then rune_tail 4 0x90 0xBF rest
           else if b < 0xF4 then rune_tail 4 0x80 0xBF rest
           else if b = 0xF4 then rune_tail 4 0x80 0x8F rest
           else None))"

text \<open>
  The text of the JSON string that the encoder writes for a Go string. The first argument
  counts the bytes of the sequence under way that are still to be taken over.
\<close>

fun encoded_text_from :: "nat \<Rightarrow> string \<Rightarrow> string" where
  "encoded_text_from k [] = []"
| "encoded_text_from (Suc k) (c # cs) = c # encoded_text_from k cs"
| "encoded_text_from 0 (c # cs) =
     (case DecodeRune_size (c # cs) of
        None \<Rightarrow> RuneError_utf8 @ encoded_text_from 0 cs
      | Some sz \<Rightarrow> c # encoded_text_from (sz - 1) cs)"

definition encoded_text :: "string \<Rightarrow> string" where
  "encoded_text s = encoded_text_from 0 s"

text \<open>
  \<^verbatim>\<open>Time.MarshalJSON\<close> fails on a time that RFC 3339 cannot write: a year outside
  0 to 9999, or a zone offset whose hours, as the layout prints them, are 24 or more (the
  offset in minutes is \<^verbatim>\<open>offset / 60\<close>, its sign is printed apart, and the hours are
  the minutes divided by 60; an offset of 0 is printed as \<^verbatim>\<open>Z\<close>).
\<close>

definition Time_MarshalJSON :: "Time \<Rightarrow> go_error + json" where
  "Time_MarshalJSON t =
     (if Year t < 0 \<or> Year t \<ge> 10000
      then Inl (errors_New ''Time.MarshalJSON: year outside of range [0,9999]'')
      else if ZoneOffset t \<noteq> 0 \<and> \<bar>ZoneOffset t\<bar> div 60 div 60 \<ge> 24
      then Inl (errors_New ''Time.MarshalJSON: timezone hour outside of range [0,23]'')
      else Inr (JTime t))"

fun marshal_value :: "go_value \<Rightarrow> go_error + json" where
  "marshal_value (String s) = Inr (JString (encoded_text s))"
| "marshal_value (StringSlice None) = Inr JNull"
| "marshal_value (StringSlice (Some xs)) = Inr (JArray (map (\<lambda>x. JString (encoded_text x)) xs))"
| "marshal_value (TimeValue t) = Time_MarshalJSON t"

fun marshal_fields :: "field list \<Rightarrow> go_error + (string \<times> json) list" where
  "marshal_fields [] = Inr []"
| "marshal_fields (f # fs) =
     (if tag_omitempty f \<and> isEmptyValue (field_value f) then marshal_fields fs
      else (case marshal_value (field_value f) of
              Inl e \<Rightarrow> Inl e
            | Inr j \<Rightarrow> (case marshal_fields fs of
                          Inl e \<Rightarrow> Inl e
                        | Inr js \<Rightarrow> Inr ((tag_name f, j) # js))))"

text \<open>\<^verbatim>\<open>json.Marshal\<close> of a struct: the bytes and a nil error, or nil bytes and the error.\<close>

definition json_Marshal :: "field list \<Rightarrow> bytes \<times> go_error option" where
  "json_Marshal fs =
     (case marshal_fields fs of
        Inl e \<Rightarrow> ([], Some e)
      | Inr js \<Rightarrow> ([Marshalled (JObject js)], None))"

record AuthURLJSON =
  AuthURLJSON_URL :: string

definition AuthURLJSON_fields :: "AuthURLJSON \<Rightarrow> field list" where
  "AuthURLJSON_fields a =
     [\<lparr>tag_name = ''url'', tag_omitempty = False, field_value = String (AuthURLJSON_URL a)\<rparr>]"

record BrowseJSON =
  FileList :: "string list option"

definition BrowseJSON_fields :: "BrowseJSON \<Rightarrow> field list" where
  "BrowseJSON_fields b =
     [\<lparr>tag_name = ''file_list'', tag_omitempty = False, field_value = StringSlice (FileList b)\<rparr>]"

record PublishJSON =
  PublishJSON_URL :: string

definition PublishJSON_fields :: "PublishJSON \<Rightarrow> field list" where
  "PublishJSON_fields p =
     [\<lparr>tag_name = ''url'', tag_omitempty = False, field_value = String (PublishJSON_URL p)\<rparr>]"

record ValidateJSON =
  Token :: string
  Expiry :: Time

definition ValidateJSON_fields :: "ValidateJSON \<Rightarrow> field list" where
  "ValidateJSON_fields v =
     [\<lparr>tag_name = ''access_token'', tag_omitempty = False, field_value = String (Token v)\<rparr>,
      \<lparr>tag_name = ''expiry'', tag_omitempty = True, field_value = TimeValue (Expiry v)\<rparr>]"

section \<open>net/http: request, route parameters, response writer\<close>

record Cookie =
  Name :: string
  Value :: string

text \<open>
  A request as the handlers read it: the cookies it carries, in order; its parsed form
  values; the bytes of its body.
\<close>

record Request =
  Cookies :: "Cookie list"
  Form :: "string \<rightharpoonup> string list"
  Request_Body :: string

definition ErrNoCookie :: go_error where
  "ErrNoCookie = errors_New ''http: named cookie not present''"

text \<open>\<^verbatim>\<open>r.Cookie(name)\<close>: the first cookie of that name, or \<^verbatim>\<open>ErrNoCookie\<close>.\<close>

definition Request_Cookie :: "Request \<Rightarrow> string \<Rightarrow> go_error + Cookie" where
  "Request_Cookie r name =
     (case filter (\<lambda>c. Name c = name) (Cookies r) of
        [] \<Rightarrow> Inl ErrNoCookie
      | c # cs \<Rightarrow> Inr c)"

text \<open>\<^verbatim>\<open>r.FormValue(key)\<close>: the first value of the key, or the empty string.\<close>

definition FormValue :: "Request \<Rightarrow> string \<Rightarrow> string" where
  "FormValue r key =
     (case Form r key of
        None \<Rightarrow> []
      | Some [] \<Rightarrow> []
      | Some (v # vs) \<Rightarrow> v)"

type_synonym Params = "(string \<times> string) list"

text \<open>\<^verbatim>\<open>ps.ByName(name)\<close> of httprouter: the value of the first parameter of that name, or the empty string.\<close>

fun ByName :: "Params \<Rightarrow> string \<Rightarrow> string" where
  "ByName [] name = []"
| "ByName ((k, v) # ps) name = (if k = name then v else ByName ps name)"

text \<open>
  The response writer: the header map the handler edits, the status once the header is
  written (\<open>None\<close> before), the header as it stood at that moment (what the client
  receives), and the body written so far.
\<close>

record ResponseWriter =
  header :: "string \<rightharpoonup> string list"
  status :: "nat option"
  sent_header :: "string \<rightharpoonup> string list"
  body :: bytes

definition new_ResponseWriter :: ResponseWriter where
  "new_ResponseWriter = \<lparr>header = Map.empty, status = None, sent_header = Map.empty, body = []\<rparr>"

definition StatusOK :: nat where "StatusOK = 200"
definition StatusBadRequest :: nat where "StatusBadRequest = 400"
definition StatusUnauthorized :: nat where "StatusUnauthorized = 401"
definition StatusNotFound :: nat where "StatusNotFound = 404"

definition Header_Set :: "ResponseWriter \<Rightarrow> string \<Rightarrow> string \<Rightarrow> ResponseWriter" where
  "Header_Set w k v = w\<lparr>header := (header w)(k \<mapsto> [v])\<rparr>"

text \<open>\<^verbatim>\<open>w.WriteHeader(code)\<close>: the first call fixes status and header; a later call changes nothing.\<close>

definition WriteHeader :: "ResponseWriter \<Rightarrow> nat \<Rightarrow> ResponseWriter" where
  "WriteHeader w code =
     (case status w of
        None \<Rightarrow> w\<lparr>status := Some code, sent_header := header w\<rparr>
      | Some c \<Rightarrow> w)"

text \<open>\<^verbatim>\<open>w.Write(data)\<close>: writes the header with 200 if it is not written yet, then appends.\<close>

definition Write :: "ResponseWriter \<Rightarrow> bytes \<Rightarrow> ResponseWriter" where
  "Write w data =
     (let w' = WriteHeader w StatusOK in w'\<lparr>body := body w' @ data\<rparr>)"

text \<open>
  \<^verbatim>\<open>http.Error(w, error, code)\<close>: sets the plain-text content type, writes the header
  with the code, and prints the message with \<^verbatim>\<open>fmt.Fprintln\<close>, that is, followed by a
  line feed. It does not end the request.
\<close>

definition http_Error :: "ResponseWriter \<Rightarrow> string \<Rightarrow> nat \<Rightarrow> ResponseWriter" where
  "http_Error w msg code =
     (let w1 = Header_Set w ''Content-Type'' ''text/plain; charset=utf-8'';
          w2 = Header_Set w1 ''X-Content-Type-Options'' ''nosniff'';
          w3 = WriteHeader w2 code
      in Write w3 [Plain (msg @ [CHR 0x0A])])"

text \<open>The response goes out as plain text when that is the content type of the written header.\<close>

definition is_plain_text :: "ResponseWriter \<Rightarrow> bool" where
  "is_plain_text w = (sent_header w ''Content-Type'' = Some [''text/plain; charset=utf-8''])"

text \<open>The status the client receives: 200 when the handler returned without writing a header.\<close>

definition response_status :: "ResponseWriter \<Rightarrow> nat" where
  "response_status w = (case status w of None \<Rightarrow> StatusOK | Some c \<Rightarrow> c)"

section \<open>The storage client\<close>

text \<open>
  The client \<^verbatim>\<open>gd\<close> is a package variable whose code is not part of the file. It is a
  parameter of every handler: one function per method, of the arguments the handler passes,
  to the values the method returns. A slice or pointer result may be nil (\<open>None\<close>).
  The response of \<^verbatim>\<open>gd.Read\<close> has a \<^verbatim>\<open>Body\<close> that is read and closed; a nil
  \<^verbatim>\<open>Body\<close> is \<open>None\<close>, otherwise it is the bytes the stream yields.
\<close>

record Response =
  Response_Body :: "string option"

record client =
  gd_Add :: "string \<Rightarrow> string \<Rightarrow> string \<Rightarrow> go_error option"
  gd_AuthURL :: string
  gd_Browse :: "string \<Rightarrow> string \<Rightarrow> string list option \<times> go_error option"
  gd_Delete :: "string \<Rightarrow> string \<Rightarrow> go_error option"
  gd_Publish :: "string \<Rightarrow> string \<Rightarrow> string \<times> go_error option"
  gd_Read :: "string \<Rightarrow> string \<Rightarrow> Response option \<times> go_error option"
  gd_Validate :: "string \<Rightarrow> string \<times> Time \<times> go_error option"

text \<open>
  What a handler does besides writing the response: each call of the client with the
  arguments it was given, the copy of the read stream, the close of the read stream.
\<close>

datatype event =
    Call_Add string string string
  | Call_AuthURL
  | Call_Browse string string
  | Call_Delete string string
  | Call_Publish string string
  | Call_Read string string
  | Call_Validate string
  | Copy_Body
  | Close_Body



text \<open>
  The run of a handler: the response writer as the handler leaves it, the events in order,
  and whether the handler panicked instead of returning.
\<close>

record run =
  writer :: ResponseWriter
  events :: "event list"
  panicked :: bool

definition return :: "ResponseWriter \<Rightarrow> event list \<Rightarrow> run" where
  "return w es = \<lparr>writer = w, events = es, panicked = False\<rparr>"

definition panic :: "ResponseWriter \<Rightarrow> event list \<Rightarrow> run" where
  "panic w es = \<lparr>writer = w, events = es, panicked = True\<rparr>"

section \<open>The handlers\<close>

definition Add :: "client \<Rightarrow> ResponseWriter \<Rightarrow> Request \<Rightarrow> Params \<Rightarrow> run" where
  "Add gd w r ps =
     (case Request_Cookie r ''token'' of
        Inl err \<Rightarrow> return (http_Error w ''User not authenticated'' StatusUnauthorized) []
      | Inr cookie \<Rightarrow>
          (let token = Value cookie; data = Request_Body r; path = ByName ps ''filepath'';
               err = gd_Add gd token data path;
               es = [Call_Add token data path]
           in case err of
                Some e \<Rightarrow> return (http_Error w (Error e) StatusBadRequest) es
              | None \<Rightarrow> return w es))"

definition AuthURL :: "client \<Rightarrow> ResponseWriter \<Rightarrow> Request \<Rightarrow> Params \<Rightarrow> run" where
  "AuthURL gd w r ps =
     (if ByName ps ''provider'' = ''google''
      then (let a = \<lparr>AuthURLJSON_URL = gd_AuthURL gd\<rparr>;
                j = fst (json_Marshal (AuthURLJSON_fields a));
                w1 = Header_Set w ''Content-Type'' ''application/json''
            in return (Write w1 j) [Call_AuthURL])
      else return (http_Error w ''Provider not found'' StatusNotFound) [])"

definition Browse :: "client \<Rightarrow> ResponseWriter \<Rightarrow> Request \<Rightarrow> Params \<Rightarrow> run" where
  "Browse gd w r ps =
     (case Request_Cookie r ''token'' of
        Inl err \<Rightarrow> return (http_Error w ''authenticated'' StatusUnauthorized) []
      | Inr cookie \<Rightarrow>
          (let token = Value cookie; path = ByName ps ''filepath'';
               (list, err) = gd_Browse gd token path;
               es = [Call_Browse token path];
               w1 = (case err of
                       Some e \<Rightarrow> http_Error w (Error e) StatusBadRequest
                     | None \<Rightarrow> w);
               j = fst (json_Marshal (BrowseJSON_fields \<lparr>FileList = list\<rparr>));
               w2 = Header_Set w1 ''Content-Type'' ''application/json''
           in return (Write w2 j) es))"

definition Delete :: "client \<Rightarrow> ResponseWriter \<Rightarrow> Request \<Rightarrow> Params \<Rightarrow> run" where
  "Delete gd w r ps =
     (case Request_Cookie r ''token'' of
        Inl err \<Rightarrow> return (http_Error w ''User not authenticated'' StatusUnauthorized) []
      | Inr cookie \<Rightarrow>
          (let token = Value cookie; path = ByName ps ''filepath'';
               err = gd_Delete gd token path;
               es = [Call_Delete token path]
           in case err of
                Some e \<Rightarrow> return (http_Error w (Error e) StatusBadRequest) es
              | None \<Rightarrow> return w es))"

definition Publish :: "client \<Rightarrow> ResponseWriter \<Rightarrow> Request \<Rightarrow> Params \<Rightarrow> run" where
  "Publish gd w r ps =
     (case Request_Cookie r ''token'' of
        Inl err \<Rightarrow> return (http_Error w ''User not authenticated'' StatusUnauthorized) []
      | Inr cookie \<Rightarrow>
          (let token = Value cookie; path = ByName ps ''filepath'';
               (link, err) = gd_Publish gd token path;
               es = [Call_Publish token path];
               w1 = (case err of
                       Some e \<Rightarrow> http_Error w (Error e) StatusBadRequest
                     | None \<Rightarrow> w);
               j = fst (json_Marshal (PublishJSON_fields \<lparr>PublishJSON_URL = link\<rparr>));
               w2 = Header_Set w1 ''Content-Type'' ''application/json''
           in return (Write w2 j) es))"

text \<open>
  \<^verbatim>\<open>io.Copy(w, response.Body)\<close> writes what the stream yields (nothing is written for
  an empty stream) and panics on a nil \<^verbatim>\<open>Body\<close>, whose \<^verbatim>\<open>Read\<close> method it calls.
\<close>

definition Read :: "client \<Rightarrow> ResponseWriter \<Rightarrow> Request \<Rightarrow> Params \<Rightarrow> run" where
  "Read gd w r ps =
     (case Request_Cookie r ''token'' of
        Inl err \<Rightarrow> return (http_Error w ''User not authenticated'' StatusUnauthorized) []
      | Inr cookie \<Rightarrow>
          (let token = Value cookie; path = ByName ps ''filepath'';
               (response, err) = gd_Read gd token path;
               es = [Call_Read token path]
           in case err of
                Some e \<Rightarrow> return (http_Error w (Error e) StatusBadRequest) es
              | None \<Rightarrow>
                  (case response of
                     None \<Rightarrow> return w es
                   | Some resp \<Rightarrow>
                       (case Response_Body resp of
                          None \<Rightarrow> panic w es
                        | Some data \<Rightarrow>
                            (let w1 = (if data = [] then w else Write w [Plain data])
                             in return w1 (es @ [Copy_Body, Close_Body]))))))"

definition Validate :: "client \<Rightarrow> ResponseWriter \<Rightarrow> Request \<Rightarrow> Params \<Rightarrow> run" where
  "Validate gd w r ps =
     (let state = FormValue r ''state'' in
      if state = ''google''
      then (let code = FormValue r ''code'';
                (token, expiry, err) = gd_Validate gd code;
                es = [Call_Validate code]
            in case err of
                 Some e \<Rightarrow> return (http_Error w ''Auth Code invalid'' StatusBadRequest) es
               | None \<Rightarrow>
                   (let j = fst (json_Marshal (ValidateJSON_fields \<lparr>Token = token, Expiry = expiry\<rparr>));
                        w1 = Header_Set w ''Content-Type'' ''application/json''
                    in return (Write w1 j) es))
      else return (http_Error w ''Invalid state token'' StatusBadRequest) [])"

section \<open>Sample clients and requests\<close>

text \<open>A client that accepts every call, and one that refuses every call with a given message
  and returns zero values beside the error.\<close>

definition accepting_client :: client where
  "accepting_client =
     \<lparr>gd_Add = (\<lambda>token data path. None),
      gd_AuthURL = ''https://accounts.example/o/oauth2/auth'',
      gd_Browse = (\<lambda>token path. (Some [''a.txt'', ''b.txt''], None)),
      gd_Delete = (\<lambda>token path. None),
      gd_Publish = (\<lambda>token path. (''https://drive.example/a.txt'', None)),
      gd_Read = (\<lambda>token path. (Some \<lparr>Response_Body = Some ''hello''\<rparr>, None)),
      gd_Validate = (\<lambda>code. (''ya29.token'', zero_Time, None))\<rparr>"

definition refusing_client :: "string \<Rightarrow> client" where
  "refusing_client msg =
     \<lparr>gd_Add = (\<lambda>token data path. Some (errors_New msg)),
      gd_AuthURL = [],
      gd_Browse = (\<lambda>token path. (None, Some (errors_New msg))),
      gd_Delete = (\<lambda>token path. Some (errors_New msg)),
      gd_Publish = (\<lambda>token path. ([], Some (errors_New msg))),
      gd_Read = (\<lambda>token path. (None, Some (errors_New msg))),
      gd_Validate = (\<lambda>code. ([], zero_Time, Some (errors_New msg)))\<rparr>"

definition session_cookie :: Cookie where
  "session_cookie = \<lparr>Name = ''token'', Value = ''s3cr3t''\<rparr>"

definition anonymous_request :: Request where
  "anonymous_request =
     \<lparr>Cookies = [\<lparr>Name = ''lang'', Value = ''en''\<rparr>], Form = Map.empty, Request_Body = ''payload''\<rparr>"

definition session_request :: Request where
  "session_request =
     \<lparr>Cookies = [\<lparr>Name = ''lang'', Value = ''en''\<rparr>, session_cookie], Form = Map.empty,
      Request_Body = ''payload''\<rparr>"

definition callback_request :: "string \<Rightarrow> Request" where
  "callback_request state =
     \<lparr>Cookies = [], Form = [''state'' \<mapsto> [state], ''code'' \<mapsto> [''4/abc'']], Request_Body = []\<rparr>"

definition partial_client :: client where
  "partial_client =
     (refusing_client ''quota exceeded'')
       \<lparr>gd_Browse := \<lambda>token path. (Some [''a.txt''], Some (errors_New ''quota exceeded'')),
        gd_Publish := \<lambda>token path. (''https://drive.example/a.txt'', Some (errors_New ''quota exceeded''))\<rparr>"

definition file_params :: Params where
  "file_params = [(''filepath'', ''/docs/a.txt'')]"

text \<open>The handlers of the routes that ask for the session cookie.\<close>

definition cookie_gated :: "(client \<Rightarrow> ResponseWriter \<Rightarrow> Request \<Rightarrow> Params \<Rightarrow> run) list" where
  "cookie_gated = [Add, Browse, Delete, Publish, Read]"

section \<open>Facts about the library model and the samples\<close>

lemma Request_Cookie_absent:
  "\<forall>c \<in> set (Cookies r). Name c \<noteq> name \<Longrightarrow> Request_Cookie r name = Inl ErrNoCookie"
  by (simp add: Request_Cookie_def)

lemma http_Error_new:
  "http_Error new_ResponseWriter msg code =
     \<lparr>header = [''Content-Type'' \<mapsto> [''text/plain; charset=utf-8''],
                ''X-Content-Type-Options'' \<mapsto> [''nosniff'']],
      status = Some code,
      sent_header = [''Content-Type'' \<mapsto> [''text/plain; charset=utf-8''],
                     ''X-Content-Type-Options'' \<mapsto> [''nosniff'']],
      body = [Plain (msg @ [CHR 0x0A])]\<rparr>"
  by (simp add: http_Error_def Header_Set_def WriteHeader_def Write_def new_ResponseWriter_def)

lemma session_request_cookie: "Request_Cookie session_request ''token'' = Inr session_cookie"
  by (simp add: Request_Cookie_def session_request_def session_cookie_def)

lemma file_params_path: "ByName file_params ''filepath'' = ''/docs/a.txt''"
  by (simp add: file_params_def)

lemma callback_request_form:
  "FormValue (callback_request state) ''state'' = state"
  "FormValue (callback_request state) ''code'' = ''4/abc''"
  by (simp_all add: FormValue_def callback_request_def)

lemma http_Error_new_observed:
  "response_status (http_Error new_ResponseWriter msg code) = code"
  "is_plain_text (http_Error new_ResponseWriter msg code)"
  "body (http_Error new_ResponseWriter msg code) = [Plain (msg @ [CHR 0x0A])]"
  by (simp_all add: http_Error_new response_status_def is_plain_text_def)

lemma Write_after_http_Error:
  "response_status (Write (Header_Set (http_Error new_ResponseWriter msg code) k v) data) = code"
  "is_plain_text (Write (Header_Set (http_Error new_ResponseWriter msg code) k v) data)"
  "body (Write (Header_Set (http_Error new_ResponseWriter msg code) k v) data)
     = Plain (msg @ [CHR 0x0A]) # data"
  by (simp_all add: http_Error_new response_status_def is_plain_text_def Write_def
      Header_Set_def WriteHeader_def)

lemma DecodeRune_size_ascii:
  "of_char c < (0x80::nat) \<Longrightarrow> DecodeRune_size (c # cs) = Some 1"
  by (simp add: DecodeRune_size_def)

lemma encoded_text_ascii:
  "list_all (\<lambda>c. of_char c < (0x80::nat)) s \<Longrightarrow> encoded_text s = s"
  unfolding encoded_text_def
  by (induction s) (simp_all add: DecodeRune_size_ascii)

lemma encoded_text_empty_iff: "encoded_text s = [] \<longleftrightarrow> s = []"
  unfolding encoded_text_def
  by (cases s) (simp_all add: RuneError_utf8_def split: option.splits)

lemma encoded_text_invalid_byte: "encoded_text [CHR 0xFF] = RuneError_utf8"
  by (simp add: encoded_text_def DecodeRune_size_def)

lemma encoded_text_samples:
  "encoded_text [] = []"
  "encoded_text ''a.txt'' = ''a.txt''"
  "encoded_text ''https://drive.example/a.txt'' = ''https://drive.example/a.txt''"
  "encoded_text ''ya29.token'' = ''ya29.token''"
  by (simp add: encoded_text_def) (rule encoded_text_ascii, simp)+

lemma zone_hours_in_range: "\<bar>z :: int\<bar> < 86400 \<Longrightarrow> \<not> 24 \<le> \<bar>z\<bar> div 60 div 60"
  by arith

lemma Marshal_BrowseJSON:
  "fst (json_Marshal (BrowseJSON_fields \<lparr>FileList = list\<rparr>))
     = [Marshalled (JObject [(''file_list'',
          (case list of None \<Rightarrow> JNull
           | Some xs \<Rightarrow> JArray (map (\<lambda>x. JString (encoded_text x)) xs)))])]"
  by (cases list) (simp_all add: json_Marshal_def BrowseJSON_fields_def)

lemma Marshal_PublishJSON:
  "fst (json_Marshal (PublishJSON_fields \<lparr>PublishJSON_URL = link\<rparr>))
     = [Marshalled (JObject [(''url'', JString (encoded_text link))])]"
  by (simp add: json_Marshal_def PublishJSON_fields_def)

lemma Marshal_ValidateJSON:
  "fst (json_Marshal (ValidateJSON_fields \<lparr>Token = token, Expiry = expiry\<rparr>))
     = (if Year expiry < 0 \<or> 10000 \<le> Year expiry
           \<or> (ZoneOffset expiry \<noteq> 0 \<and> 24 \<le> \<bar>ZoneOffset expiry\<bar> div 60 div 60) then []
        else [Marshalled (JObject [(''access_token'', JString (encoded_text token)),
                                   (''expiry'', JTime expiry)])])"
  by (simp add: json_Marshal_def ValidateJSON_fields_def Time_MarshalJSON_def)

lemma zero_Time_marshals:
  "Year zero_Time = 1" "ZoneOffset zero_Time = 0"
  by (simp_all add: zero_Time_def)

lemma Add_client_error:
  assumes "Request_Cookie r ''token'' = Inr c"
    and "gd_Add gd (Value c) (Request_Body r) (ByName ps ''filepath'') = Some e"
  shows "writer (Add gd w r ps) = http_Error w (Error e) StatusBadRequest"
  using assms by (simp add: Add_def return_def)

lemma Delete_client_error:
  assumes "Request_Cookie r ''token'' = Inr c"
    and "gd_Delete gd (Value c) (ByName ps ''filepath'') = Some e"
  shows "writer (Delete gd w r ps) = http_Error w (Error e) StatusBadRequest"
  using assms by (simp add: Delete_def return_def)

lemma Read_client_error:
  assumes "Request_Cookie r ''token'' = Inr c"
    and "gd_Read gd (Value c) (ByName ps ''filepath'') = (resp, Some e)"
  shows "writer (Read gd w r ps) = http_Error w (Error e) StatusBadRequest"
  using assms by (simp add: Read_def return_def)

lemma Browse_client_error:
  assumes "Request_Cookie r ''token'' = Inr c"
    and "gd_Browse gd (Value c) (ByName ps ''filepath'') = (list, Some e)"
  shows "writer (Browse gd w r ps)
       = Write (Header_Set (http_Error w (Error e) StatusBadRequest) ''Content-Type'' ''application/json'')
           (fst (json_Marshal (BrowseJSON_fields \<lparr>FileList = list\<rparr>)))"
    and "\<not> panicked (Browse gd w r ps)"
  using assms by (simp_all add: Browse_def return_def)

lemma Publish_client_error:
  assumes "Request_Cookie r ''token'' = Inr c"
    and "gd_Publish gd (Value c) (ByName ps ''filepath'') = (link, Some e)"
  shows "writer (Publish gd w r ps)
       = Write (Header_Set (http_Error w (Error e) StatusBadRequest) ''Content-Type'' ''application/json'')
           (fst (json_Marshal (PublishJSON_fields \<lparr>PublishJSON_URL = link\<rparr>)))"
    and "\<not> panicked (Publish gd w r ps)"
  using assms by (simp_all add: Publish_def return_def)

lemma Validate_client_error:
  assumes "FormValue r ''state'' = ''google''"
    and "gd_Validate gd (FormValue r ''code'') = (token, expiry, Some e)"
  shows "writer (Validate gd w r ps) = http_Error w ''Auth Code invalid'' StatusBadRequest"
  using assms by (simp add: Validate_def return_def)

lemma Validate_accepted:
  assumes "FormValue r ''state'' = ''google''"
    and "gd_Validate gd (FormValue r ''code'') = (token, expiry, None)"
  shows "writer (Validate gd w r ps)
       = Write (Header_Set w ''Content-Type'' ''application/json'')
           (fst (json_Marshal (ValidateJSON_fields \<lparr>Token = token, Expiry = expiry\<rparr>)))"
  using assms by (simp add: Validate_def return_def)

lemma Write_json_new:
  "response_status (Write (Header_Set new_ResponseWriter ''Content-Type'' ''application/json'') data) = 200"
  "sent_header (Write (Header_Set new_ResponseWriter ''Content-Type'' ''application/json'') data)
      ''Content-Type'' = Some [''application/json'']"
  "body (Write (Header_Set new_ResponseWriter ''Content-Type'' ''application/json'') data) = data"
  by (simp_all add: Write_def Header_Set_def WriteHeader_def new_ResponseWriter_def
      response_status_def StatusOK_def)

lemma partial_client_returns:
  "gd_Browse partial_client (Value session_cookie) (ByName file_params ''filepath'')
     = (Some [''a.txt''], Some (errors_New ''quota exceeded''))"
  "gd_Publish partial_client (Value session_cookie) (ByName file_params ''filepath'')
     = (''https://drive.example/a.txt'', Some (errors_New ''quota exceeded''))"
  by (simp_all add: partial_client_def)

lemma refusing_client_returns:
  "gd_Browse (refusing_client msg) token path = (None, Some (errors_New msg))"
  "gd_Publish (refusing_client msg) token path = ([], Some (errors_New msg))"
  by (simp_all add: refusing_client_def)

lemma accepting_client_Validate:
  "gd_Validate accepting_client code = (''ya29.token'', zero_Time, None)"
  by (simp add: accepting_client_def)

section \<open>Requests without the session cookie\<close>

text \<open>
  C3. A request to a cookie-gated route (Add, Browse, Delete, Publish, Read) that carries no
  cookie named \<^verbatim>\<open>token\<close> is answered with status 401 and a body that is not empty, the
  storage client is not called, and the handler returns.
\<close>

theorem missing_token_unauthorized:
  assumes "\<forall>c \<in> set (Cookies r). Name c \<noteq> ''token''"
  shows "\<forall>h \<in> set cookie_gated.
           response_status (writer (h gd new_ResponseWriter r ps)) = 401
         \<and> \<not> empty_bytes (body (writer (h gd new_ResponseWriter r ps)))
         \<and> events (h gd new_ResponseWriter r ps) = []
         \<and> \<not> panicked (h gd new_ResponseWriter r ps)"
  using Request_Cookie_absent [OF assms]
  by (simp add: cookie_gated_def Add_def Browse_def Delete_def Publish_def Read_def
      return_def http_Error_new response_status_def empty_bytes_def StatusUnauthorized_def)

theorem missing_token_unauthorized_witness:
  "list_all (\<lambda>c. Name c \<noteq> ''token'') (Cookies anonymous_request)
   \<and> list_all (\<lambda>h.
           response_status (writer (h accepting_client new_ResponseWriter anonymous_request file_params)) = 401
         \<and> \<not> empty_bytes (body (writer (h accepting_client new_ResponseWriter anonymous_request file_params)))
         \<and> events (h accepting_client new_ResponseWriter anonymous_request file_params) = []
         \<and> \<not> panicked (h accepting_client new_ResponseWriter anonymous_request file_params))
       cookie_gated"
proof -
  have h: "\<forall>c \<in> set (Cookies anonymous_request). Name c \<noteq> ''token''"
    by (simp add: anonymous_request_def)
  from h missing_token_unauthorized [OF h, of accepting_client file_params] show ?thesis
    unfolding list_all_iff by blast
qed

section \<open>Validate with an unsupported state\<close>

text \<open>
  C4. A request to the validate route whose \<^verbatim>\<open>state\<close> form value is not
  \<^verbatim>\<open>google\<close> is answered with status 400, and the client is not called: the handler
  causes no event at all.
\<close>

theorem Validate_unsupported_state:
  assumes "FormValue r ''state'' \<noteq> ''google''"
  shows "response_status (writer (Validate gd new_ResponseWriter r ps)) = 400
       \<and> events (Validate gd new_ResponseWriter r ps) = []
       \<and> \<not> panicked (Validate gd new_ResponseWriter r ps)"
  using assms
  by (simp add: Validate_def return_def http_Error_new response_status_def StatusBadRequest_def)

theorem Validate_unsupported_state_witness:
  "FormValue (callback_request ''dropbox'') ''state'' \<noteq> ''google''
   \<and> response_status (writer (Validate accepting_client new_ResponseWriter (callback_request ''dropbox'') [])) = 400
   \<and> events (Validate accepting_client new_ResponseWriter (callback_request ''dropbox'') []) = []
   \<and> \<not> panicked (Validate accepting_client new_ResponseWriter (callback_request ''dropbox'') [])"
proof -
  have h: "FormValue (callback_request ''dropbox'') ''state'' \<noteq> ''google''"
    by (simp add: FormValue_def callback_request_def)
  from h Validate_unsupported_state [OF h, of accepting_client "[]"] show ?thesis by blast
qed

section \<open>Read\<close>

text \<open>
  C5. A Read request with a token cookie, for which the client returns a nil response and a
  nil error, is answered with status 200 and an empty body; the handler returns without a
  panic, and the only event is the call of the client: nothing is copied or closed.
\<close>

theorem Read_nil_stream:
  assumes "Request_Cookie r ''token'' = Inr c"
    and "gd_Read gd (Value c) (ByName ps ''filepath'') = (None, None)"
  shows "response_status (writer (Read gd new_ResponseWriter r ps)) = 200
       \<and> empty_bytes (body (writer (Read gd new_ResponseWriter r ps)))
       \<and> \<not> panicked (Read gd new_ResponseWriter r ps)
       \<and> events (Read gd new_ResponseWriter r ps) = [Call_Read (Value c) (ByName ps ''filepath'')]"
  using assms
  by (simp add: Read_def return_def response_status_def empty_bytes_def new_ResponseWriter_def
      StatusOK_def)

theorem Read_nil_stream_witness:
  "Request_Cookie session_request ''token'' = Inr session_cookie
   \<and> gd_Read (accepting_client\<lparr>gd_Read := \<lambda>token path. (None, None)\<rparr>) (Value session_cookie)
        (ByName file_params ''filepath'') = (None, None)
   \<and> response_status (writer (Read (accepting_client\<lparr>gd_Read := \<lambda>token path. (None, None)\<rparr>)
        new_ResponseWriter session_request file_params)) = 200
   \<and> empty_bytes (body (writer (Read (accepting_client\<lparr>gd_Read := \<lambda>token path. (None, None)\<rparr>)
        new_ResponseWriter session_request file_params)))
   \<and> \<not> panicked (Read (accepting_client\<lparr>gd_Read := \<lambda>token path. (None, None)\<rparr>)
        new_ResponseWriter session_request file_params)"
proof -
  have h: "gd_Read (accepting_client\<lparr>gd_Read := \<lambda>token path. (None, None)\<rparr>) (Value session_cookie)
        (ByName file_params ''filepath'') = (None, None)"
    by simp
  from session_request_cookie h Read_nil_stream [OF session_request_cookie h] show ?thesis by blast
qed

text \<open>
  C10. In every run of Read in which the stream of the client's response is copied to the
  response writer, the events end with the copy followed by the close, nothing before them
  is a copy or a close, so the stream is closed exactly once, and the handler returns.
\<close>

theorem Read_closes_copied_stream:
  assumes "Copy_Body \<in> set (events (Read gd w r ps))"
  shows "(\<exists>pre. events (Read gd w r ps) = pre @ [Copy_Body, Close_Body]
              \<and> Copy_Body \<notin> set pre \<and> Close_Body \<notin> set pre)
       \<and> length (filter (\<lambda>e. e = Close_Body) (events (Read gd w r ps))) = 1
       \<and> \<not> panicked (Read gd w r ps)"
  using assms
  by (auto simp add: Read_def return_def panic_def Let_def split: option.splits prod.splits sum.splits)

theorem Read_closes_copied_stream_witness:
  "Copy_Body \<in> set (events (Read accepting_client new_ResponseWriter session_request file_params))
   \<and> events (Read accepting_client new_ResponseWriter session_request file_params)
       = [Call_Read ''s3cr3t'' ''/docs/a.txt'', Copy_Body, Close_Body]
   \<and> length (filter (\<lambda>e. e = Close_Body)
        (events (Read accepting_client new_ResponseWriter session_request file_params))) = 1
   \<and> \<not> panicked (Read accepting_client new_ResponseWriter session_request file_params)"
proof -
  have ev: "events (Read accepting_client new_ResponseWriter session_request file_params)
       = [Call_Read ''s3cr3t'' ''/docs/a.txt'', Copy_Body, Close_Body]"
    by (simp add: Read_def session_request_cookie file_params_path accepting_client_def
        return_def session_cookie_def)
  have h: "Copy_Body \<in> set (events (Read accepting_client new_ResponseWriter session_request file_params))"
    by (simp add: ev)
  from h ev Read_closes_copied_stream [OF h] show ?thesis by blast
qed

section \<open>The credential handed to the client\<close>



section \<open>Errors of the client\<close>

text \<open>
  C6, as the code has it. A Delete request with a token cookie, for which the client returns
  an error whose message is \<^verbatim>\<open>not found\<close>, is answered with status 400, and the body
  is that message followed by a line feed: \<^verbatim>\<open>http.Error\<close> prints the message with
  \<^verbatim>\<open>Fprintln\<close>. The body is not the bare message.
\<close>

theorem Delete_not_found:
  assumes "Request_Cookie r ''token'' = Inr c"
    and "gd_Delete gd (Value c) (ByName ps ''filepath'') = Some e"
    and "Error e = ''not found''"
  shows "response_status (writer (Delete gd new_ResponseWriter r ps)) = 400
       \<and> plain_text (body (writer (Delete gd new_ResponseWriter r ps)))
           = Some (''not found'' @ [CHR 0x0A])"
  using assms(3)
  by (simp add: Delete_client_error [OF assms(1,2)] http_Error_new_observed StatusBadRequest_def)

theorem Delete_not_found_witness:
  "Request_Cookie session_request ''token'' = Inr session_cookie
   \<and> gd_Delete (refusing_client ''not found'') (Value session_cookie) (ByName file_params ''filepath'')
       = Some (errors_New ''not found'')
   \<and> Error (errors_New ''not found'') = ''not found''
   \<and> response_status (writer (Delete (refusing_client ''not found'') new_ResponseWriter
        session_request file_params)) = 400
   \<and> plain_text (body (writer (Delete (refusing_client ''not found'') new_ResponseWriter
        session_request file_params))) = Some (''not found'' @ [CHR 0x0A])"
proof -
  have h: "gd_Delete (refusing_client ''not found'') (Value session_cookie) (ByName file_params ''filepath'')
       = Some (errors_New ''not found'')"
    by (simp add: refusing_client_def)
  have m: "Error (errors_New ''not found'') = ''not found''" by simp
  from session_request_cookie h m Delete_not_found [OF session_request_cookie h m]
  show ?thesis by blast
qed

theorem Delete_not_found_counterexample:
  "Request_Cookie session_request ''token'' = Inr session_cookie
   \<and> gd_Delete (refusing_client ''not found'') (Value session_cookie) (ByName file_params ''filepath'')
       = Some (errors_New ''not found'')
   \<and> Error (errors_New ''not found'') = ''not found''
   \<and> plain_text (body (writer (Delete (refusing_client ''not found'') new_ResponseWriter
        session_request file_params))) \<noteq> Some ''not found''"
proof -
  have h: "gd_Delete (refusing_client ''not found'') (Value session_cookie) (ByName file_params ''filepath'')
       = Some (errors_New ''not found'')"
    by (simp add: refusing_client_def)
  show ?thesis
    using session_request_cookie h
    by (simp add: Delete_client_error [OF session_request_cookie h] http_Error_new_observed)
qed

text \<open>
  C2, as the code has it. When the client returns an error to a request that carries a token
  cookie, Add, Delete and Read answer with status 400 and a plain-text body that is the
  message of the error followed by a line feed; Browse and Publish write the same and then
  one JSON document after it. Validate, which reads no cookie, answers an error of the
  client with status 400 and the fixed text \<^verbatim>\<open>Auth Code invalid\<close> followed by a line
  feed, whatever the message of the error is.
\<close>

theorem client_error_body:
  "(Request_Cookie r ''token'' = Inr c \<longrightarrow>
       (gd_Add gd (Value c) (Request_Body r) (ByName ps ''filepath'') = Some e \<longrightarrow>
            response_status (writer (Add gd new_ResponseWriter r ps)) = 400
          \<and> is_plain_text (writer (Add gd new_ResponseWriter r ps))
          \<and> plain_text (body (writer (Add gd new_ResponseWriter r ps))) = Some (Error e @ [CHR 0x0A]))
     \<and> (gd_Delete gd (Value c) (ByName ps ''filepath'') = Some e \<longrightarrow>
            response_status (writer (Delete gd new_ResponseWriter r ps)) = 400
          \<and> is_plain_text (writer (Delete gd new_ResponseWriter r ps))
          \<and> plain_text (body (writer (Delete gd new_ResponseWriter r ps))) = Some (Error e @ [CHR 0x0A]))
     \<and> (gd_Read gd (Value c) (ByName ps ''filepath'') = (resp, Some e) \<longrightarrow>
            response_status (writer (Read gd new_ResponseWriter r ps)) = 400
          \<and> is_plain_text (writer (Read gd new_ResponseWriter r ps))
          \<and> plain_text (body (writer (Read gd new_ResponseWriter r ps))) = Some (Error e @ [CHR 0x0A]))
     \<and> (gd_Browse gd (Value c) (ByName ps ''filepath'') = (list, Some e) \<longrightarrow>
            response_status (writer (Browse gd new_ResponseWriter r ps)) = 400
          \<and> is_plain_text (writer (Browse gd new_ResponseWriter r ps))
          \<and> (\<exists>doc. body (writer (Browse gd new_ResponseWriter r ps))
                      = [Plain (Error e @ [CHR 0x0A]), Marshalled doc]))
     \<and> (gd_Publish gd (Value c) (ByName ps ''filepath'') = (link, Some e) \<longrightarrow>
            response_status (writer (Publish gd new_ResponseWriter r ps)) = 400
          \<and> is_plain_text (writer (Publish gd new_ResponseWriter r ps))
          \<and> (\<exists>doc. body (writer (Publish gd new_ResponseWriter r ps))
                      = [Plain (Error e @ [CHR 0x0A]), Marshalled doc])))
   \<and> (FormValue r ''state'' = ''google''
        \<and> gd_Validate gd (FormValue r ''code'') = (token, expiry, Some e) \<longrightarrow>
            response_status (writer (Validate gd new_ResponseWriter r ps)) = 400
          \<and> is_plain_text (writer (Validate gd new_ResponseWriter r ps))
          \<and> plain_text (body (writer (Validate gd new_ResponseWriter r ps)))
               = Some (''Auth Code invalid'' @ [CHR 0x0A]))"
proof (intro conjI impI)
  assume k: "Request_Cookie r ''token'' = Inr c"
    and a: "gd_Add gd (Value c) (Request_Body r) (ByName ps ''filepath'') = Some e"
  note w = Add_client_error [OF k a]
  show "response_status (writer (Add gd new_ResponseWriter r ps)) = 400"
    by (simp add: w http_Error_new_observed StatusBadRequest_def)
  show "is_plain_text (writer (Add gd new_ResponseWriter r ps))"
    by (simp add: w http_Error_new_observed)
  show "plain_text (body (writer (Add gd new_ResponseWriter r ps))) = Some (Error e @ [CHR 0x0A])"
    by (simp add: w http_Error_new_observed)
next
  assume k: "Request_Cookie r ''token'' = Inr c"
    and a: "gd_Delete gd (Value c) (ByName ps ''filepath'') = Some e"
  note w = Delete_client_error [OF k a]
  show "response_status (writer (Delete gd new_ResponseWriter r ps)) = 400"
    by (simp add: w http_Error_new_observed StatusBadRequest_def)
  show "is_plain_text (writer (Delete gd new_ResponseWriter r ps))"
    by (simp add: w http_Error_new_observed)
  show "plain_text (body (writer (Delete gd new_ResponseWriter r ps))) = Some (Error e @ [CHR 0x0A])"
    by (simp add: w http_Error_new_observed)
next
  assume k: "Request_Cookie r ''token'' = Inr c"
    and a: "gd_Read gd (Value c) (ByName ps ''filepath'') = (resp, Some e)"
  note w = Read_client_error [OF k a]
  show "response_status (writer (Read gd new_ResponseWriter r ps)) = 400"
    by (simp add: w http_Error_new_observed StatusBadRequest_def)
  show "is_plain_text (writer (Read gd new_ResponseWriter r ps))"
    by (simp add: w http_Error_new_observed)
  show "plain_text (body (writer (Read gd new_ResponseWriter r ps))) = Some (Error e @ [CHR 0x0A])"
    by (simp add: w http_Error_new_observed)
next
  assume k: "Request_Cookie r ''token'' = Inr c"
    and a: "gd_Browse gd (Value c) (ByName ps ''filepath'') = (list, Some e)"
  note w = Browse_client_error(1) [OF k a]
  show "response_status (writer (Browse gd new_ResponseWriter r ps)) = 400"
    by (simp add: w Write_after_http_Error StatusBadRequest_def)
  show "is_plain_text (writer (Browse gd new_ResponseWriter r ps))"
    by (simp add: w Write_after_http_Error)
  show "\<exists>doc. body (writer (Browse gd new_ResponseWriter r ps))
                = [Plain (Error e @ [CHR 0x0A]), Marshalled doc]"
    by (simp add: w Write_after_http_Error Marshal_BrowseJSON)
next
  assume k: "Request_Cookie r ''token'' = Inr c"
    and a: "gd_Publish gd (Value c) (ByName ps ''filepath'') = (link, Some e)"
  note w = Publish_client_error(1) [OF k a]
  show "response_status (writer (Publish gd new_ResponseWriter r ps)) = 400"
    by (simp add: w Write_after_http_Error StatusBadRequest_def)
  show "is_plain_text (writer (Publish gd new_ResponseWriter r ps))"
    by (simp add: w Write_after_http_Error)
  show "\<exists>doc. body (writer (Publish gd new_ResponseWriter r ps))
                = [Plain (Error e @ [CHR 0x0A]), Marshalled doc]"
    by (simp add: w Write_after_http_Error Marshal_PublishJSON)
next
  assume a: "FormValue r ''state'' = ''google''
     \<and> gd_Validate gd (FormValue r ''code'') = (token, expiry, Some e)"
  note w = Validate_client_error [OF conjunct1 [OF a] conjunct2 [OF a]]
  show "response_status (writer (Validate gd new_ResponseWriter r ps)) = 400"
    by (simp add: w http_Error_new_observed StatusBadRequest_def)
  show "is_plain_text (writer (Validate gd new_ResponseWriter r ps))"
    by (simp add: w http_Error_new_observed)
  show "plain_text (body (writer (Validate gd new_ResponseWriter r ps)))
          = Some (''Auth Code invalid'' @ [CHR 0x0A])"
    by (simp add: w http_Error_new_observed)
qed

theorem client_error_body_counterexample:
  "FormValue (callback_request ''google'') ''state'' = ''google''
   \<and> gd_Validate (refusing_client ''invalid_grant'') (FormValue (callback_request ''google'') ''code'')
       = ([], zero_Time, Some (errors_New ''invalid_grant''))
   \<and> Error (errors_New ''invalid_grant'') = ''invalid_grant''
   \<and> plain_text (body (writer (Validate (refusing_client ''invalid_grant'') new_ResponseWriter
        (callback_request ''google'') []))) = Some (''Auth Code invalid'' @ [CHR 0x0A])
   \<and> plain_text (body (writer (Validate (refusing_client ''invalid_grant'') new_ResponseWriter
        (callback_request ''google'') []))) \<noteq> Some ''invalid_grant''
   \<and> plain_text (body (writer (Validate (refusing_client ''invalid_grant'') new_ResponseWriter
        (callback_request ''google'') []))) \<noteq> Some (''invalid_grant'' @ [CHR 0x0A])"
proof -
  have s: "FormValue (callback_request ''google'') ''state'' = ''google''"
    by (simp add: callback_request_form)
  have v: "gd_Validate (refusing_client ''invalid_grant'') (FormValue (callback_request ''google'') ''code'')
       = ([], zero_Time, Some (errors_New ''invalid_grant''))"
    by (simp add: refusing_client_def)
  show ?thesis
    using s v by (simp add: Validate_client_error [OF s v] http_Error_new_observed)
qed

theorem client_error_body_witness:
  "Request_Cookie session_request ''token'' = Inr session_cookie
   \<and> gd_Add (refusing_client ''quota exceeded'') (Value session_cookie)
        (Request_Body session_request) (ByName file_params ''filepath'')
       = Some (errors_New ''quota exceeded'')
   \<and> plain_text (body (writer (Add (refusing_client ''quota exceeded'') new_ResponseWriter
        session_request file_params))) = Some (''quota exceeded'' @ [CHR 0x0A])
   \<and> gd_Delete (refusing_client ''quota exceeded'') (Value session_cookie) (ByName file_params ''filepath'')
       = Some (errors_New ''quota exceeded'')
   \<and> plain_text (body (writer (Delete (refusing_client ''quota exceeded'') new_ResponseWriter
        session_request file_params))) = Some (''quota exceeded'' @ [CHR 0x0A])
   \<and> gd_Read (refusing_client ''quota exceeded'') (Value session_cookie) (ByName file_params ''filepath'')
       = (None, Some (errors_New ''quota exceeded''))
   \<and> plain_text (body (writer (Read (refusing_client ''quota exceeded'') new_ResponseWriter
        session_request file_params))) = Some (''quota exceeded'' @ [CHR 0x0A])
   \<and> gd_Browse (refusing_client ''quota exceeded'') (Value session_cookie) (ByName file_params ''filepath'')
       = (None, Some (errors_New ''quota exceeded''))
   \<and> response_status (writer (Browse (refusing_client ''quota exceeded'') new_ResponseWriter
        session_request file_params)) = 400
   \<and> gd_Publish (refusing_client ''quota exceeded'') (Value session_cookie) (ByName file_params ''filepath'')
       = ([], Some (errors_New ''quota exceeded''))
   \<and> response_status (writer (Publish (refusing_client ''quota exceeded'') new_ResponseWriter
        session_request file_params)) = 400
   \<and> Cookies (callback_request ''google'') = []
   \<and> FormValue (callback_request ''google'') ''state'' = ''google''
   \<and> gd_Validate (refusing_client ''quota exceeded'') (FormValue (callback_request ''google'') ''code'')
       = ([], zero_Time, Some (errors_New ''quota exceeded''))
   \<and> response_status (writer (Validate (refusing_client ''quota exceeded'') new_ResponseWriter
        (callback_request ''google'') [])) = 400
   \<and> plain_text (body (writer (Validate (refusing_client ''quota exceeded'') new_ResponseWriter
        (callback_request ''google'') []))) = Some (''Auth Code invalid'' @ [CHR 0x0A])"
proof -
  have a: "gd_Add (refusing_client ''quota exceeded'') (Value session_cookie)
        (Request_Body session_request) (ByName file_params ''filepath'')
       = Some (errors_New ''quota exceeded'')"
    and d: "gd_Delete (refusing_client ''quota exceeded'') (Value session_cookie)
        (ByName file_params ''filepath'') = Some (errors_New ''quota exceeded'')"
    and rd: "gd_Read (refusing_client ''quota exceeded'') (Value session_cookie)
        (ByName file_params ''filepath'') = (None, Some (errors_New ''quota exceeded''))"
    and b: "gd_Browse (refusing_client ''quota exceeded'') (Value session_cookie)
        (ByName file_params ''filepath'') = (None, Some (errors_New ''quota exceeded''))"
    and p: "gd_Publish (refusing_client ''quota exceeded'') (Value session_cookie)
        (ByName file_params ''filepath'') = ([], Some (errors_New ''quota exceeded''))"
    and v: "gd_Validate (refusing_client ''quota exceeded'') (FormValue (callback_request ''google'') ''code'')
       = ([], zero_Time, Some (errors_New ''quota exceeded''))"
    by (simp_all add: refusing_client_def)
  have n: "Cookies (callback_request ''google'') = []"
    by (simp add: callback_request_def)
  note gated = client_error_body [of session_request session_cookie
      "refusing_client ''quota exceeded''" file_params "errors_New ''quota exceeded''"
      None None "[]" "[]" zero_Time]
  note callback = client_error_body [of "callback_request ''google''" session_cookie
      "refusing_client ''quota exceeded''" "[]" "errors_New ''quota exceeded''"
      None None "[]" "[]" zero_Time]
  from gated callback a d rd b p v n callback_request_form(1) session_request_cookie
  show ?thesis by simp
qed

text \<open>
  C1, as the code has it. When a Browse or Publish request carries a token cookie and the
  client returns an error, the handler writes the message of the error and a line feed as a
  plain-text response with status 400 and goes on: it appends to the same body the JSON
  encoding of the value that the client returned beside the error. For Browse the field
  \<^verbatim>\<open>file_list\<close> is null for a nil list and the array of the names otherwise; for Publish
  the field \<^verbatim>\<open>url\<close> is the returned string. A name or link goes into the JSON document
  as the encoder writes it: with U+FFFD in place of every byte that is not part of
  well-formed UTF-8. The handler returns.
\<close>

theorem Browse_Publish_write_after_error:
  assumes "Request_Cookie r ''token'' = Inr c"
  shows "(gd_Browse gd (Value c) (ByName ps ''filepath'') = (list, Some e) \<longrightarrow>
            response_status (writer (Browse gd new_ResponseWriter r ps)) = 400
          \<and> is_plain_text (writer (Browse gd new_ResponseWriter r ps))
          \<and> body (writer (Browse gd new_ResponseWriter r ps))
              = [Plain (Error e @ [CHR 0x0A]),
                 Marshalled (JObject [(''file_list'',
                   (case list of None \<Rightarrow> JNull | Some xs \<Rightarrow> JArray (map (\<lambda>x. JString (encoded_text x)) xs)))])]
          \<and> \<not> panicked (Browse gd new_ResponseWriter r ps))
       \<and> (gd_Publish gd (Value c) (ByName ps ''filepath'') = (link, Some e) \<longrightarrow>
            response_status (writer (Publish gd new_ResponseWriter r ps)) = 400
          \<and> is_plain_text (writer (Publish gd new_ResponseWriter r ps))
          \<and> body (writer (Publish gd new_ResponseWriter r ps))
              = [Plain (Error e @ [CHR 0x0A]), Marshalled (JObject [(''url'', JString (encoded_text link))])]
          \<and> \<not> panicked (Publish gd new_ResponseWriter r ps))"
proof (intro conjI impI)
  assume a: "gd_Browse gd (Value c) (ByName ps ''filepath'') = (list, Some e)"
  note w = Browse_client_error [OF assms a]
  show "response_status (writer (Browse gd new_ResponseWriter r ps)) = 400"
    by (simp add: w Write_after_http_Error StatusBadRequest_def)
  show "is_plain_text (writer (Browse gd new_ResponseWriter r ps))"
    by (simp add: w Write_after_http_Error)
  show "body (writer (Browse gd new_ResponseWriter r ps))
          = [Plain (Error e @ [CHR 0x0A]),
             Marshalled (JObject [(''file_list'',
               (case list of None \<Rightarrow> JNull | Some xs \<Rightarrow> JArray (map (\<lambda>x. JString (encoded_text x)) xs)))])]"
    by (simp add: w Write_after_http_Error Marshal_BrowseJSON)
  show "\<not> panicked (Browse gd new_ResponseWriter r ps)"
    by (rule w(2))
next
  assume a: "gd_Publish gd (Value c) (ByName ps ''filepath'') = (link, Some e)"
  note w = Publish_client_error [OF assms a]
  show "response_status (writer (Publish gd new_ResponseWriter r ps)) = 400"
    by (simp add: w Write_after_http_Error StatusBadRequest_def)
  show "is_plain_text (writer (Publish gd new_ResponseWriter r ps))"
    by (simp add: w Write_after_http_Error)
  show "body (writer (Publish gd new_ResponseWriter r ps))
          = [Plain (Error e @ [CHR 0x0A]), Marshalled (JObject [(''url'', JString (encoded_text link))])]"
    by (simp add: w Write_after_http_Error Marshal_PublishJSON)
  show "\<not> panicked (Publish gd new_ResponseWriter r ps)"
    by (rule w(2))
qed

theorem Browse_Publish_write_after_error_witness:
  "Request_Cookie session_request ''token'' = Inr session_cookie
   \<and> gd_Browse (refusing_client ''quota exceeded'') (Value session_cookie) (ByName file_params ''filepath'')
       = (None, Some (errors_New ''quota exceeded''))
   \<and> response_status (writer (Browse (refusing_client ''quota exceeded'') new_ResponseWriter
        session_request file_params)) = 400
   \<and> is_plain_text (writer (Browse (refusing_client ''quota exceeded'') new_ResponseWriter
        session_request file_params))
   \<and> body (writer (Browse (refusing_client ''quota exceeded'') new_ResponseWriter
        session_request file_params))
       = [Plain (''quota exceeded'' @ [CHR 0x0A]), Marshalled (JObject [(''file_list'', JNull)])]
   \<and> gd_Publish (refusing_client ''quota exceeded'') (Value session_cookie) (ByName file_params ''filepath'')
       = ([], Some (errors_New ''quota exceeded''))
   \<and> response_status (writer (Publish (refusing_client ''quota exceeded'') new_ResponseWriter
        session_request file_params)) = 400
   \<and> is_plain_text (writer (Publish (refusing_client ''quota exceeded'') new_ResponseWriter
        session_request file_params))
   \<and> body (writer (Publish (refusing_client ''quota exceeded'') new_ResponseWriter
        session_request file_params))
       = [Plain (''quota exceeded'' @ [CHR 0x0A]), Marshalled (JObject [(''url'', JString [])])]"
  using Browse_Publish_write_after_error [OF session_request_cookie,
      of "refusing_client ''quota exceeded''" file_params None "errors_New ''quota exceeded''" "[]"]
    session_request_cookie
  by (simp add: refusing_client_returns encoded_text_samples)

theorem Browse_Publish_write_after_error_counterexample:
  "Request_Cookie session_request ''token'' = Inr session_cookie
   \<and> gd_Browse partial_client (Value session_cookie) (ByName file_params ''filepath'')
       = (Some [''a.txt''], Some (errors_New ''quota exceeded''))
   \<and> body (writer (Browse partial_client new_ResponseWriter session_request file_params))
       = [Plain (''quota exceeded'' @ [CHR 0x0A]),
          Marshalled (JObject [(''file_list'', JArray [JString ''a.txt''])])]
   \<and> gd_Publish partial_client (Value session_cookie) (ByName file_params ''filepath'')
       = (''https://drive.example/a.txt'', Some (errors_New ''quota exceeded''))
   \<and> body (writer (Publish partial_client new_ResponseWriter session_request file_params))
       = [Plain (''quota exceeded'' @ [CHR 0x0A]),
          Marshalled (JObject [(''url'', JString ''https://drive.example/a.txt'')])]"
  using session_request_cookie
  by (simp add: partial_client_returns
      Browse_client_error(1) [OF session_request_cookie partial_client_returns(1)]
      Publish_client_error(1) [OF session_request_cookie partial_client_returns(2)]
      Write_after_http_Error Marshal_BrowseJSON Marshal_PublishJSON encoded_text_samples)

section \<open>Accepted authorization codes\<close>

text \<open>
  C7. The \<^verbatim>\<open>expiry\<close> field of the Validate response carries the tag
  \<^verbatim>\<open>omitempty\<close>, to be left out of the JSON body when the client supplies no expiry.
  The encoder does not leave it out: a \<^verbatim>\<open>time.Time\<close> is a struct, and the encoder
  never takes a struct for empty. For a client that accepts the code and returns the zero
  time, the body holds both fields, the expiry being the zero time.
\<close>

theorem Validate_zero_expiry_serialized:
  "FormValue (callback_request ''google'') ''state'' = ''google''
   \<and> gd_Validate accepting_client (FormValue (callback_request ''google'') ''code'')
       = (''ya29.token'', zero_Time, None)
   \<and> body (writer (Validate accepting_client new_ResponseWriter (callback_request ''google'') []))
       = [Marshalled (JObject [(''access_token'', JString ''ya29.token''),
                               (''expiry'', JTime zero_Time)])]"
  by (simp add: callback_request_form accepting_client_Validate
      Validate_accepted [OF callback_request_form(1) accepting_client_Validate]
      Write_json_new Marshal_ValidateJSON zero_Time_marshals encoded_text_samples)

text \<open>
  C8, as the code has it. When the \<^verbatim>\<open>state\<close> form value is \<^verbatim>\<open>google\<close>, the client
  accepts the code, and the expiry it returns has a year within 0 to 9999 and a zone offset
  of less than 24 hours either way, the response has status 200 and content type JSON, and
  its body is one JSON document whose \<^verbatim>\<open>access_token\<close> field is the token string that
  the client returned, as the encoder writes it (U+FFFD in place of every byte that is not
  part of well-formed UTF-8). The field is empty exactly when the client's token is empty.
  (For an expiry outside those bounds the encoder fails and the body stays empty.)
\<close>

theorem Validate_access_token:
  assumes "FormValue r ''state'' = ''google''"
    and "gd_Validate gd (FormValue r ''code'') = (token, expiry, None)"
    and "0 \<le> Year expiry" and "Year expiry < 10000"
    and "\<bar>ZoneOffset expiry\<bar> < 86400"
  shows "response_status (writer (Validate gd new_ResponseWriter r ps)) = 200
       \<and> sent_header (writer (Validate gd new_ResponseWriter r ps)) ''Content-Type''
           = Some [''application/json'']
       \<and> (\<exists>doc. body_json (body (writer (Validate gd new_ResponseWriter r ps))) = Some doc
              \<and> json_field doc ''access_token'' = Some (JString (encoded_text token)))
       \<and> (encoded_text token = [] \<longleftrightarrow> token = [])"
  using assms(3,4) zone_hours_in_range [OF assms(5)]
  by (simp add: Validate_accepted [OF assms(1,2)] Write_json_new Marshal_ValidateJSON body_json_def
      encoded_text_empty_iff)

theorem Validate_access_token_witness:
  "FormValue (callback_request ''google'') ''state'' = ''google''
   \<and> gd_Validate accepting_client (FormValue (callback_request ''google'') ''code'')
       = (''ya29.token'', zero_Time, None)
   \<and> 0 \<le> Year zero_Time \<and> Year zero_Time < 10000 \<and> \<bar>ZoneOffset zero_Time\<bar> < 86400
   \<and> response_status (writer (Validate accepting_client new_ResponseWriter (callback_request ''google'') [])) = 200
   \<and> Option.bind (body_json (body (writer (Validate accepting_client new_ResponseWriter
          (callback_request ''google'') [])))) (\<lambda>doc. json_field doc ''access_token'')
       = Some (JString ''ya29.token'')"
proof -
  have y: "0 \<le> Year zero_Time" "Year zero_Time < 10000" "\<bar>ZoneOffset zero_Time\<bar> < 86400"
    by (simp_all add: zero_Time_marshals)
  from Validate_access_token [OF callback_request_form(1) accepting_client_Validate y, of "[]"]
    callback_request_form(1) accepting_client_Validate y
  show ?thesis by (auto simp add: encoded_text_samples)
qed

theorem Validate_access_token_counterexample:
  "FormValue (callback_request ''google'') ''state'' = ''google''
   \<and> gd_Validate (accepting_client\<lparr>gd_Validate := \<lambda>code. ([], zero_Time, None)\<rparr>)
        (FormValue (callback_request ''google'') ''code'') = ([], zero_Time, None)
   \<and> body (writer (Validate (accepting_client\<lparr>gd_Validate := \<lambda>code. ([], zero_Time, None)\<rparr>)
        new_ResponseWriter (callback_request ''google'') []))
       = [Marshalled (JObject [(''access_token'', JString []), (''expiry'', JTime zero_Time)])]
   \<and> gd_Validate (accepting_client\<lparr>gd_Validate := \<lambda>code. (''ya29.token'', zero_Time\<lparr>Year := 10000\<rparr>, None)\<rparr>)
        (FormValue (callback_request ''google'') ''code'')
       = (''ya29.token'', zero_Time\<lparr>Year := 10000\<rparr>, None)
   \<and> body (writer (Validate
        (accepting_client\<lparr>gd_Validate := \<lambda>code. (''ya29.token'', zero_Time\<lparr>Year := 10000\<rparr>, None)\<rparr>)
        new_ResponseWriter (callback_request ''google'') [])) = []
   \<and> gd_Validate (accepting_client\<lparr>gd_Validate := \<lambda>code. (''ya29.token'', zero_Time\<lparr>ZoneOffset := 86400\<rparr>, None)\<rparr>)
        (FormValue (callback_request ''google'') ''code'')
       = (''ya29.token'', zero_Time\<lparr>ZoneOffset := 86400\<rparr>, None)
   \<and> body (writer (Validate
        (accepting_client\<lparr>gd_Validate := \<lambda>code. (''ya29.token'', zero_Time\<lparr>ZoneOffset := 86400\<rparr>, None)\<rparr>)
        new_ResponseWriter (callback_request ''google'') [])) = []"
proof -
  have v: "gd_Validate (accepting_client\<lparr>gd_Validate := \<lambda>code. ([], zero_Time, None)\<rparr>)
        (FormValue (callback_request ''google'') ''code'') = ([], zero_Time, None)"
    by simp
  have u: "gd_Validate (accepting_client\<lparr>gd_Validate := \<lambda>code. (''ya29.token'', zero_Time\<lparr>Year := 10000\<rparr>, None)\<rparr>)
        (FormValue (callback_request ''google'') ''code'')
       = (''ya29.token'', zero_Time\<lparr>Year := 10000\<rparr>, None)"
    by simp
  have z: "gd_Validate (accepting_client\<lparr>gd_Validate := \<lambda>code. (''ya29.token'', zero_Time\<lparr>ZoneOffset := 86400\<rparr>, None)\<rparr>)
        (FormValue (callback_request ''google'') ''code'')
       = (''ya29.token'', zero_Time\<lparr>ZoneOffset := 86400\<rparr>, None)"
    by simp
  show ?thesis
    using v u z
    by (simp add: callback_request_form Validate_accepted [OF callback_request_form(1) v]
        Validate_accepted [OF callback_request_form(1) u]
        Validate_accepted [OF callback_request_form(1) z]
        Write_json_new Marshal_ValidateJSON zero_Time_marshals encoded_text_samples)
qed

end
